theory Spec2Isabelle
  imports Complex_Main
begin

section \<open>Numbers\<close>

text \<open>
  The program computes with binary floating-point numbers: Python \<^verbatim>\<open>float\<close> for prices,
  balances and quantities, numpy \<^verbatim>\<open>float64\<close> inside pandas series. The embedding keeps the
  special values that steer the control flow (not-a-number and the two infinities) and
  idealises every finite value as a real number: no rounding error, no overflow, no signed
  zero. Python floats read from the exchange (price, balance, step size) are finite reals.
\<close>

datatype fval = Fin real | PInf | NInf | NaN

text \<open>Negation, addition, subtraction, multiplication and division as numpy does them on
  \<^verbatim>\<open>float64\<close>: nothing raises, an undefined result is \<open>NaN\<close>.\<close>

fun fneg :: "fval \<Rightarrow> fval" where
  "fneg (Fin a) = Fin (- a)"
| "fneg PInf = NInf"
| "fneg NInf = PInf"
| "fneg NaN = NaN"

fun fadd :: "fval \<Rightarrow> fval \<Rightarrow> fval" where
  "fadd NaN _ = NaN"
| "fadd _ NaN = NaN"
| "fadd (Fin a) (Fin b) = Fin (a + b)"
| "fadd PInf NInf = NaN"
| "fadd NInf PInf = NaN"
| "fadd PInf _ = PInf"
| "fadd NInf _ = NInf"
| "fadd (Fin a) PInf = PInf"
| "fadd (Fin a) NInf = NInf"

definition fsub :: "fval \<Rightarrow> fval \<Rightarrow> fval" where
  "fsub x y = fadd x (fneg y)"

text \<open>The sign of a value: \<open>Some True\<close> for positive, \<open>Some False\<close> for negative,
  \<open>None\<close> for zero and \<open>NaN\<close>.\<close>

fun fsign :: "fval \<Rightarrow> bool option" where
  "fsign (Fin a) = (if 0 < a then Some True else if a < 0 then Some False else None)"
| "fsign PInf = Some True"
| "fsign NInf = Some False"
| "fsign NaN = None"

definition signed_inf :: "bool \<Rightarrow> fval" where
  "signed_inf pos = (if pos then PInf else NInf)"

fun fmul :: "fval \<Rightarrow> fval \<Rightarrow> fval" where
  "fmul NaN _ = NaN"
| "fmul _ NaN = NaN"
| "fmul (Fin a) (Fin b) = Fin (a * b)"
| "fmul x y =
     (case (fsign x, fsign y) of
        (Some p, Some q) \<Rightarrow> signed_inf (p = q)
      | _ \<Rightarrow> NaN)"

fun fdiv :: "fval \<Rightarrow> fval \<Rightarrow> fval" where
  "fdiv NaN _ = NaN"
| "fdiv _ NaN = NaN"
| "fdiv (Fin a) (Fin b) =
     (if b \<noteq> 0 then Fin (a / b)
      else if 0 < a then PInf else if a < 0 then NInf else NaN)"
| "fdiv (Fin a) _ = Fin 0"
| "fdiv PInf (Fin b) = (if b < 0 then NInf else PInf)"
| "fdiv NInf (Fin b) = (if b < 0 then PInf else NInf)"
| "fdiv _ _ = NaN"

text \<open>Comparisons: every comparison with \<open>NaN\<close> is false.\<close>

fun flt :: "fval \<Rightarrow> fval \<Rightarrow> bool" where
  "flt NaN _ = False"
| "flt _ NaN = False"
| "flt (Fin a) (Fin b) = (a < b)"
| "flt PInf _ = False"
| "flt _ PInf = True"
| "flt NInf NInf = False"
| "flt NInf _ = True"
| "flt _ NInf = False"

definition fgt :: "fval \<Rightarrow> fval \<Rightarrow> bool" where
  "fgt x y = flt y x"

fun fle :: "fval \<Rightarrow> fval \<Rightarrow> bool" where
  "fle NaN _ = False"
| "fle _ NaN = False"
| "fle x y = (\<not> flt y x)"

definition fge :: "fval \<Rightarrow> fval \<Rightarrow> bool" where
  "fge x y = fle y x"

section \<open>pandas series and frames\<close>

type_synonym series = "fval list"

text \<open>A data frame is its columns by name. All columns of one frame have the same length;
  the columns the indicators never read (timestamp, open, high, ...) are held like the
  others.\<close>

type_synonym dataframe = "string \<rightharpoonup> series"

datatype py_exception =
    BinanceAPIException
  | BinanceRequestException
  | NameError
  | KeyError
  | ValueError
  | IndexError
  | TypeError
  | ZeroDivisionError
  | StopIteration
  | OSError

text \<open>\<^verbatim>\<open>Series.diff()\<close>: the first entry is undefined, entry \<open>i\<close> is \<open>xs[i] - xs[i-1]\<close>.\<close>

definition diff :: "series \<Rightarrow> series" where
  "diff xs = (case xs of [] \<Rightarrow> [] | _ # rest \<Rightarrow> NaN # map2 fsub rest xs)"

text \<open>\<^verbatim>\<open>Series.mask(cond, other)\<close>: entries where the condition holds are replaced.\<close>

definition mask :: "(fval \<Rightarrow> bool) \<Rightarrow> fval \<Rightarrow> series \<Rightarrow> series" where
  "mask cond other xs = map (\<lambda>x. if cond x then other else x) xs"

text \<open>The rolling window ending at index \<open>i\<close>. pandas turns infinities into \<open>NaN\<close> before a
  rolling aggregation and, with the default \<^verbatim>\<open>min_periods = window\<close>, yields \<open>NaN\<close> unless the
  window is complete and holds no \<open>NaN\<close>. \<open>window_values\<close> returns the \<open>w\<close> finite
  observations, or \<open>None\<close> where the aggregate is undefined.\<close>

fun finite_values :: "series \<Rightarrow> real list option" where
  "finite_values [] = Some []"
| "finite_values (Fin a # xs) = map_option ((#) a) (finite_values xs)"
| "finite_values (_ # xs) = None"

definition window_values :: "nat \<Rightarrow> series \<Rightarrow> nat \<Rightarrow> real list option" where
  "window_values w xs i =
     (if w = 0 \<or> i + 1 < w then None
      else finite_values (take w (drop (i + 1 - w) xs)))"

definition mean :: "real list \<Rightarrow> real" where
  "mean vs = sum_list vs / real (length vs)"

text \<open>\<^verbatim>\<open>rolling(window=w).mean()\<close>; a negative window raises \<^verbatim>\<open>ValueError\<close>.\<close>

definition rolling_mean :: "int \<Rightarrow> series \<Rightarrow> py_exception + series" where
  "rolling_mean window xs =
     (if window < 0 then Inl ValueError
      else Inr (map (\<lambda>i. case window_values (nat window) xs i of
                            None \<Rightarrow> NaN
                          | Some vs \<Rightarrow> Fin (mean vs))
                    [0..<length xs]))"

text \<open>\<^verbatim>\<open>rolling(window=w).std()\<close>: the sample standard deviation (\<^verbatim>\<open>ddof = 1\<close>), undefined for
  a window of fewer than two observations.\<close>

definition sample_std :: "real list \<Rightarrow> real" where
  "sample_std vs =
     sqrt (sum_list (map (\<lambda>v. (v - mean vs)\<^sup>2) vs) / (real (length vs) - 1))"

definition rolling_std :: "int \<Rightarrow> series \<Rightarrow> py_exception + series" where
  "rolling_std window xs =
     (if window < 0 then Inl ValueError
      else Inr (map (\<lambda>i. case window_values (nat window) xs i of
                            None \<Rightarrow> NaN
                          | Some vs \<Rightarrow> if length vs \<le> 1 then NaN else Fin (sample_std vs))
                    [0..<length xs]))"

section \<open>Indicators\<close>

text \<open>\<^verbatim>\<open>calculate_rsi(self, data, period)\<close>: the gains and the losses of the price
  differences, their rolling averages, and \<open>100 - 100 / (1 + rs)\<close> of their quotient. The
  model of an indicator returns the frame as it is after the call together with the value
  returned or the exception raised.\<close>

definition gain :: "series \<Rightarrow> series" where
  "gain delta = mask (\<lambda>d. flt d (Fin 0)) (Fin 0) delta"

definition loss :: "series \<Rightarrow> series" where
  "loss delta = map fneg (mask (\<lambda>d. fgt d (Fin 0)) (Fin 0) delta)"

definition rsi_value :: "fval \<Rightarrow> fval" where
  "rsi_value rs = fsub (Fin 100) (fdiv (Fin 100) (fadd (Fin 1) rs))"

definition rsi_series :: "series \<Rightarrow> series \<Rightarrow> series" where
  "rsi_series avg_gain avg_loss =
     (let rs = map2 fdiv avg_gain avg_loss
      in map rsi_value rs)"

definition calculate_rsi :: "dataframe \<Rightarrow> int \<Rightarrow> dataframe \<times> (py_exception + series)" where
  "calculate_rsi data period =
     (case data ''close'' of
        None \<Rightarrow> (data, Inl KeyError)
      | Some close \<Rightarrow>
          (let delta = diff close
           in case rolling_mean period (gain delta) of
                Inl x \<Rightarrow> (data, Inl x)
              | Inr avg_gain \<Rightarrow>
                  (case rolling_mean period (loss delta) of
                     Inl x \<Rightarrow> (data, Inl x)
                   | Inr avg_loss \<Rightarrow> (data, Inr (rsi_series avg_gain avg_loss)))))"

text \<open>\<^verbatim>\<open>calculate_bollinger_bands(self, data, period, std_dev)\<close> assigns four columns of the
  frame it is given and returns that same frame.\<close>

definition calculate_bollinger_bands ::
  "dataframe \<Rightarrow> int \<Rightarrow> real \<Rightarrow> dataframe \<times> (py_exception + dataframe)" where
  "calculate_bollinger_bands data period std_dev =
     (case data ''close'' of
        None \<Rightarrow> (data, Inl KeyError)
      | Some close \<Rightarrow>
          (case (rolling_mean period close, rolling_std period close) of
             (Inr sma, Inr std) \<Rightarrow>
               (let width = map (\<lambda>d. fmul d (Fin std_dev)) std;
                    data' = data(''sma'' \<mapsto> sma,
                                 ''std'' \<mapsto> std,
                                 ''upper_band'' \<mapsto> map2 fadd sma width,
                                 ''lower_band'' \<mapsto> map2 fsub sma width)
                in (data', Inr data'))
           | (Inl x, _) \<Rightarrow> (data, Inl x)
           | (_, Inl x) \<Rightarrow> (data, Inl x)))"

section \<open>The bot\<close>

record position =
  in_position :: bool
  quantity :: real
  buy_price :: real

datatype side = BUY | SELL

record transaction =
  tx_type :: side
  tx_timestamp :: string
  tx_symbol :: string
  tx_price :: real
  tx_quantity :: real
  tx_value :: real
  tx_profit :: "real option"
  tx_profit_percent :: "real option"

text \<open>The mutable state of a \<^verbatim>\<open>CryptoTradeBot\<close>, together with what it leaves outside:
  the market orders that the exchange has accepted, and the file \<^verbatim>\<open>transactions.json\<close> as the
  list of the contents written to it so far, both oldest first.\<close>

record bot =
  position :: position
  transactions :: "transaction list"
  orders :: "(side \<times> real) list"
  transactions_json :: "transaction list list"

record config =
  trading_pair :: string
  rsi_period :: int
  rsi_overbought :: real
  rsi_oversold :: real
  bollinger_period :: int
  bollinger_std :: real
  min_order_value :: real
  max_order_value :: real
  max_loss_percent :: real

text \<open>\<^verbatim>\<open>CryptoTradeBot.__init__\<close>: no open position, no transactions.\<close>

definition init_bot :: bot where
  "init_bot =
     \<lparr>position = \<lparr>in_position = False, quantity = 0, buy_price = 0\<rparr>,
      transactions = [],
      orders = [],
      transactions_json = []\<rparr>"

subsection \<open>The world outside\<close>

text \<open>One entry of the \<^verbatim>\<open>filters\<close> list of \<^verbatim>\<open>get_symbol_info\<close>; \<open>stepSize\<close> is what
  \<^verbatim>\<open>float(f['stepSize'])\<close> yields.\<close>

record symbol_filter =
  filterType :: string
  stepSize :: "py_exception + real"

text \<open>
  What the surroundings answer during one analysis: each call of the Binance client either
  raises or returns, the clock gives a timestamp, writing the file succeeds or not.
  \<open>enums_names\<close> are the names that \<^verbatim>\<open>from binance.enums import *\<close> binds in the module;
  that package is not part of the program.
\<close>

record env =
  enums_names :: "string list"
  historical_klines :: "py_exception + series"
  symbol_ticker :: "py_exception + real"
  asset_balance :: "py_exception + real"
  symbol_info :: "py_exception + symbol_filter list"
  create_order :: "side \<Rightarrow> real \<Rightarrow> py_exception + unit"
  now :: string
  dump_ok :: bool

text \<open>The names bound at module level: the imports of lines 1 to 10, the two functions,
  the class, and the variables of the main block. A name that is not among them is looked
  up among the builtins, which hold no \<^verbatim>\<open>math\<close>: reading it raises \<^verbatim>\<open>NameError\<close>.\<close>

definition module_globals :: "env \<Rightarrow> string list" where
  "module_globals e =
     [''time'', ''json'', ''logging'', ''datetime'', ''pd'', ''np'', ''traceback'',
      ''Client'', ''BinanceAPIException'', ''BinanceRequestException'']
     @ enums_names e
     @ [''setup_logger'', ''load_config'', ''CryptoTradeBot'', ''logger'', ''config'', ''bot'']"

definition name_defined :: "env \<Rightarrow> string \<Rightarrow> bool" where
  "name_defined e n = (n \<in> set (module_globals e))"

subsection \<open>Rounding\<close>

text \<open>Python's \<^verbatim>\<open>round(x)\<close> rounds to the nearest integer, a tie to the even one;
  \<^verbatim>\<open>round(x, n)\<close> does so at the \<open>n\<close>-th decimal place.\<close>

definition py_round :: "real \<Rightarrow> int" where
  "py_round x =
     (let f = \<lfloor>x\<rfloor>; d = x - of_int f
      in if d < 1 / 2 then f
         else if 1 / 2 < d then f + 1
         else if even f then f else f + 1)"

definition py_round_ndigits :: "real \<Rightarrow> int \<Rightarrow> real" where
  "py_round_ndigits x n =
     (if 0 \<le> n then of_int (py_round (x * 10 ^ nat n)) / 10 ^ nat n
      else of_int (py_round (x / 10 ^ nat (- n))) * 10 ^ nat (- n))"

text \<open>Lines 166 and 167 of \<^verbatim>\<open>execute_buy_order\<close>: the number of decimals of the step size, and
  the quantity rounded to it. The name \<^verbatim>\<open>math\<close> is looked up first; \<^verbatim>\<open>math.log10\<close> raises
  \<^verbatim>\<open>ValueError\<close> outside its domain.\<close>

definition round_quantity :: "env \<Rightarrow> real \<Rightarrow> real \<Rightarrow> py_exception + real" where
  "round_quantity e raw_quantity step_size =
     (if \<not> name_defined e ''math'' then Inl NameError
      else if step_size \<le> 0 then Inl ValueError
      else (let precision = py_round (- log 10 step_size)
            in Inr (py_round_ndigits raw_quantity precision)))"

subsection \<open>Orders\<close>

text \<open>The body of the \<^verbatim>\<open>try\<close> block of \<^verbatim>\<open>execute_buy_order\<close>: the value returned or the
  exception raised, and the state at that moment.\<close>

definition buy_try :: "env \<Rightarrow> config \<Rightarrow> real \<Rightarrow> bot \<Rightarrow> (py_exception + bool) \<times> bot" where
  "buy_try e c price s =
     (case asset_balance e of
        Inl x \<Rightarrow> (Inl x, s)
      | Inr balance \<Rightarrow>
          if balance < min_order_value c then (Inr False, s)
          else
            (let order_value = min balance (max_order_value c)
             in if price = 0 then (Inl ZeroDivisionError, s)
                else
                  (let quantity0 = order_value / price
                   in case symbol_info e of
                        Inl x \<Rightarrow> (Inl x, s)
                      | Inr filters \<Rightarrow>
                          (case find (\<lambda>f. filterType f = ''LOT_SIZE'') filters of
                             None \<Rightarrow> (Inl StopIteration, s)
                           | Some lot_size_filter \<Rightarrow>
                               (case stepSize lot_size_filter of
                                  Inl x \<Rightarrow> (Inl x, s)
                                | Inr step_size \<Rightarrow>
                                    (case round_quantity e quantity0 step_size of
                                       Inl x \<Rightarrow> (Inl x, s)
                                     | Inr quantity1 \<Rightarrow>
                                         if quantity1 * price < min_order_value c
                                         then (Inr False, s)
                                         else
                                           (case create_order e BUY quantity1 of
                                              Inl x \<Rightarrow> (Inl x, s)
                                            | Inr _ \<Rightarrow>
                                                (let s0 = s\<lparr>orders :=
                                                             orders s @ [(BUY, quantity1)]\<rparr>;
                                                     s1 = s0\<lparr>position :=
                                                             \<lparr>in_position = True,
                                                              quantity = quantity1,
                                                              buy_price = price\<rparr>\<rparr>;
                                                     transaction =
                                                       \<lparr>tx_type = BUY,
                                                        tx_timestamp = now e,
                                                        tx_symbol = trading_pair c,
                                                        tx_price = price,
                                                        tx_quantity = quantity1,
                                                        tx_value = quantity1 * price,
                                                        tx_profit = None,
                                                        tx_profit_percent = None\<rparr>
                                                 in (Inr True,
                                                     s1\<lparr>transactions :=
                                                          transactions s1 @ [transaction]\<rparr>)))))))))"

text \<open>Both \<^verbatim>\<open>except\<close> clauses of the two order functions log and return \<^verbatim>\<open>False\<close>; what
  the body changed before it raised stays changed.\<close>

definition except_return_false :: "(py_exception + bool) \<times> bot \<Rightarrow> bool \<times> bot" where
  "except_return_false r =
     (case r of
        (Inr b, s) \<Rightarrow> (b, s)
      | (Inl BinanceAPIException, s) \<Rightarrow> (False, s)
      | (Inl _, s) \<Rightarrow> (False, s))"

definition execute_buy_order :: "env \<Rightarrow> config \<Rightarrow> real \<Rightarrow> bot \<Rightarrow> bool \<times> bot" where
  "execute_buy_order e c price s = except_return_false (buy_try e c price s)"

definition sell_try :: "env \<Rightarrow> config \<Rightarrow> real \<Rightarrow> bot \<Rightarrow> (py_exception + bool) \<times> bot" where
  "sell_try e c price s =
     (if \<not> in_position (position s) then (Inr False, s)
      else
        (case create_order e SELL (quantity (position s)) of
           Inl x \<Rightarrow> (Inl x, s)
         | Inr _ \<Rightarrow>
             (let s0 = s\<lparr>orders := orders s @ [(SELL, quantity (position s))]\<rparr>;
                  buy_value = quantity (position s) * buy_price (position s);
                  sell_value = quantity (position s) * price;
                  profit = sell_value - buy_value
              in if buy_value = 0 then (Inl ZeroDivisionError, s0)
                 else
                   (let profit_percent = profit / buy_value * 100;
                        transaction =
                          \<lparr>tx_type = SELL,
                           tx_timestamp = now e,
                           tx_symbol = trading_pair c,
                           tx_price = price,
                           tx_quantity = quantity (position s),
                           tx_value = sell_value,
                           tx_profit = Some profit,
                           tx_profit_percent = Some profit_percent\<rparr>;
                        s1 = s0\<lparr>transactions := transactions s @ [transaction]\<rparr>
                    in (Inr True,
                        s1\<lparr>position :=
                             \<lparr>in_position = False, quantity = 0, buy_price = 0\<rparr>\<rparr>)))))"

definition execute_sell_order :: "env \<Rightarrow> config \<Rightarrow> real \<Rightarrow> bot \<Rightarrow> bool \<times> bot" where
  "execute_sell_order e c price s = except_return_false (sell_try e c price s)"

text \<open>\<^verbatim>\<open>save_transactions\<close>: the whole list is written; a failure is logged and swallowed.\<close>

definition save_transactions :: "env \<Rightarrow> bot \<Rightarrow> bot" where
  "save_transactions e s =
     (if dump_ok e then s\<lparr>transactions_json := transactions_json s @ [transactions s]\<rparr>
      else s)"

subsection \<open>One analysis\<close>

text \<open>\<^verbatim>\<open>get_historical_data\<close> returns \<^verbatim>\<open>None\<close> on every exception. Of the twelve columns of the
  frame only \<^verbatim>\<open>close\<close> is read afterwards; the others are left out.\<close>

definition get_historical_data :: "env \<Rightarrow> dataframe option" where
  "get_historical_data e =
     (case historical_klines e of
        Inl _ \<Rightarrow> None
      | Inr close \<Rightarrow> Some [''close'' \<mapsto> close])"

definition nrows :: "dataframe \<Rightarrow> nat" where
  "nrows data = (case data ''close'' of None \<Rightarrow> 0 | Some xs \<Rightarrow> length xs)"

text \<open>\<^verbatim>\<open>data.iloc[-1]\<close>: the last row, \<^verbatim>\<open>IndexError\<close> on a frame without rows.\<close>

definition iloc_last :: "dataframe \<Rightarrow> (string \<rightharpoonup> fval) option" where
  "iloc_last data =
     (if nrows data = 0 then None else Some (\<lambda>k. map_option last (data k)))"

text \<open>
  The branch that the \<^verbatim>\<open>if\<close>/\<^verbatim>\<open>elif\<close> chain of \<^verbatim>\<open>analyze_and_trade\<close> takes (lines 295 to
  310): the buy signal, the sell signal (overbought, or price near the upper band), the
  stop-loss check of an open position, or none of them.
\<close>

datatype signal = Buy_signal | Sell_signal | Stop_loss_check | No_signal

definition trade_signal ::
  "config \<Rightarrow> position \<Rightarrow> fval \<Rightarrow> fval \<Rightarrow> fval \<Rightarrow> real \<Rightarrow> signal" where
  "trade_signal c p rsi upper_band lower_band current_price =
     (if \<not> in_position p \<and> flt rsi (Fin (rsi_oversold c))
         \<and> fle (Fin current_price) (fmul lower_band (Fin 1.02))
      then Buy_signal
      else if in_position p
              \<and> (fgt rsi (Fin (rsi_overbought c))
                 \<or> fge (Fin current_price) (fmul upper_band (Fin 0.98)))
      then Sell_signal
      else if in_position p then Stop_loss_check
      else No_signal)"

text \<open>What each branch does. The sell branch and the stop-loss branch first divide by the
  buy price, outside any \<^verbatim>\<open>try\<close>.\<close>

definition trade_logic ::
  "env \<Rightarrow> config \<Rightarrow> real \<Rightarrow> (string \<rightharpoonup> fval) \<Rightarrow> bot \<Rightarrow> (py_exception + unit) \<times> bot" where
  "trade_logic e c current_price latest s =
     (case (latest ''rsi'', latest ''upper_band'', latest ''lower_band'') of
        (Some rsi, Some upper_band, Some lower_band) \<Rightarrow>
          (case trade_signal c (position s) rsi upper_band lower_band current_price of
             Buy_signal \<Rightarrow> (Inr (), snd (execute_buy_order e c current_price s))
           | Sell_signal \<Rightarrow>
               if buy_price (position s) = 0 then (Inl ZeroDivisionError, s)
               else (Inr (), snd (execute_sell_order e c current_price s))
           | Stop_loss_check \<Rightarrow>
               if buy_price (position s) = 0 then (Inl ZeroDivisionError, s)
               else
                 (let loss_percent =
                        (current_price - buy_price (position s)) / buy_price (position s) * 100
                  in if loss_percent < - max_loss_percent c
                     then (Inr (), snd (execute_sell_order e c current_price s))
                     else (Inr (), s))
           | No_signal \<Rightarrow> (Inr (), s))
      | _ \<Rightarrow> (Inl KeyError, s))"

text \<open>The first part of \<^verbatim>\<open>analyze_and_trade\<close> (lines 269 to 288) reads and computes but
  changes nothing of the bot: it raises, or returns early (\<open>Inr None\<close>), or goes on with the
  last row of the frame and the current price.\<close>

definition analyze :: "env \<Rightarrow> config \<Rightarrow> py_exception + ((string \<rightharpoonup> fval) \<times> real) option" where
  "analyze e c =
     (case get_historical_data e of
        None \<Rightarrow> Inr None
      | Some data \<Rightarrow>
          if int (nrows data) < bollinger_period c then Inr None
          else
            (case calculate_rsi data (rsi_period c) of
               (_, Inl x) \<Rightarrow> Inl x
             | (data0, Inr rsi) \<Rightarrow>
                 (case calculate_bollinger_bands (data0(''rsi'' \<mapsto> rsi))
                         (bollinger_period c) (bollinger_std c) of
                    (_, Inl x) \<Rightarrow> Inl x
                  | (_, Inr data1) \<Rightarrow>
                      (case iloc_last data1 of
                         None \<Rightarrow> Inl IndexError
                       | Some latest \<Rightarrow>
                           (case symbol_ticker e of
                              Inl _ \<Rightarrow> Inr None
                            | Inr current_price \<Rightarrow> Inr (Some (latest, current_price)))))))"

text \<open>\<^verbatim>\<open>analyze_and_trade\<close>: an early return saves nothing, an exception of the indicators
  or of the branch escapes, and otherwise the analysis ends by saving the transactions
  (line 313), whatever the branch did.\<close>

definition analyze_and_trade :: "env \<Rightarrow> config \<Rightarrow> bot \<Rightarrow> (py_exception + unit) \<times> bot" where
  "analyze_and_trade e c s =
     (case analyze e c of
        Inl x \<Rightarrow> (Inl x, s)
      | Inr None \<Rightarrow> (Inr (), s)
      | Inr (Some (latest, current_price)) \<Rightarrow>
          (case trade_logic e c current_price latest s of
             (Inl x, s') \<Rightarrow> (Inl x, s')
           | (Inr _, s') \<Rightarrow> (Inr (), save_transactions e s')))"

text \<open>The states the bot can be in: the initial one, and every state that an analysis
  leaves behind, whatever the surroundings answer.\<close>

inductive reachable :: "config \<Rightarrow> bot \<Rightarrow> bool" for c :: config where
  reachable_init: "reachable c init_bot"
| reachable_cycle:
    "reachable c s \<Longrightarrow> analyze_and_trade e c s = (r, s') \<Longrightarrow> reachable c s'"

section \<open>Properties stated below\<close>

text \<open>A value that is undefined or a finite number not below zero.\<close>

definition nonneg_or_nan :: "fval \<Rightarrow> bool" where
  "nonneg_or_nan x = (case x of Fin a \<Rightarrow> 0 \<le> a | NaN \<Rightarrow> True | _ \<Rightarrow> False)"

text \<open>The ledger: how many transactions of a kind there are, and the latest purchase.\<close>

definition count_type :: "side \<Rightarrow> transaction list \<Rightarrow> nat" where
  "count_type k txs = length (filter (\<lambda>t. tx_type t = k) txs)"

definition last_buy :: "transaction list \<Rightarrow> transaction option" where
  "last_buy txs =
     (case filter (\<lambda>t. tx_type t = BUY) (rev txs) of [] \<Rightarrow> None | t # _ \<Rightarrow> Some t)"

definition matches_position :: "position \<Rightarrow> transaction \<Rightarrow> bool" where
  "matches_position p t = (tx_quantity t = quantity p \<and> tx_price t = buy_price p)"

definition ledger_invariant :: "bot \<Rightarrow> bool" where
  "ledger_invariant s =
     ((in_position (position s)
         \<longleftrightarrow> count_type BUY (transactions s) = count_type SELL (transactions s) + 1)
      \<and> (in_position (position s) \<longrightarrow>
           (case last_buy (transactions s) of
              None \<Rightarrow> False
            | Some t \<Rightarrow> matches_position (position s) t)))"

text \<open>The form of the invariant that every step keeps: an open position goes with a
  purchase as the last transaction.\<close>

definition ledger_shape :: "bot \<Rightarrow> bool" where
  "ledger_shape s =
     (if in_position (position s)
      then count_type BUY (transactions s) = count_type SELL (transactions s) + 1
           \<and> transactions s \<noteq> []
           \<and> tx_type (last (transactions s)) = BUY
           \<and> matches_position (position s) (last (transactions s))
      else count_type BUY (transactions s) = count_type SELL (transactions s))"

section \<open>Concrete inputs\<close>

text \<open>A market that falls from 104 to 101: with an RSI period of 2 the last RSI is 0, with
  a Bollinger period of 3 and two standard deviations the last bands are 100 and 104.\<close>

definition config_example :: config where
  "config_example =
     \<lparr>trading_pair = ''BTCUSDT'',
      rsi_period = 2, rsi_overbought = 70, rsi_oversold = 30,
      bollinger_period = 3, bollinger_std = 2,
      min_order_value = 10, max_order_value = 100, max_loss_percent = 5\<rparr>"

definition env_example :: env where
  "env_example =
     \<lparr>enums_names = [''SIDE_BUY'', ''SIDE_SELL'', ''ORDER_TYPE_MARKET''],
      historical_klines = Inr [Fin 104, Fin 103, Fin 102, Fin 101],
      symbol_ticker = Inr 100,
      asset_balance = Inr 16,
      symbol_info =
        Inr [\<lparr>filterType = ''PRICE_FILTER'', stepSize = Inl KeyError\<rparr>,
             \<lparr>filterType = ''LOT_SIZE'', stepSize = Inr (1 / 1000)\<rparr>],
      create_order = (\<lambda>_ _. Inr ()),
      now = ''2024-01-01T00:00:00'',
      dump_ok = True\<rparr>"

text \<open>A position bought at 100.\<close>

definition long_example :: bot where
  "long_example =
     \<lparr>position = \<lparr>in_position = True, quantity = 1 / 10, buy_price = 100\<rparr>,
      transactions =
        [\<lparr>tx_type = BUY, tx_timestamp = ''2024-01-01T00:00:00'', tx_symbol = ''BTCUSDT'',
          tx_price = 100, tx_quantity = 1 / 10, tx_value = 10,
          tx_profit = None, tx_profit_percent = None\<rparr>],
      orders = [(BUY, 1 / 10)],
      transactions_json = []\<rparr>"

text \<open>Three small frames: rising prices, prices that rise and fall, and constant prices.\<close>

definition rising_example :: dataframe where
  "rising_example = [''close'' \<mapsto> [Fin 1, Fin 2, Fin 3]]"

definition mixed_example :: dataframe where
  "mixed_example = [''close'' \<mapsto> [Fin 1, Fin 3, Fin 2, Fin 5]]"

definition flat_example :: dataframe where
  "flat_example = [''close'' \<mapsto> [Fin 1, Fin 1, Fin 1]]"

text \<open>The same surroundings with a balance of 5, and with an exchange that rejects every
  order.\<close>

definition env_poor :: env where
  "env_poor = env_example\<lparr>asset_balance := Inr 5\<rparr>"

definition env_rejecting :: env where
  "env_rejecting = env_example\<lparr>create_order := (\<lambda>_ _. Inl BinanceAPIException)\<rparr>"

text \<open>Surroundings in which the star import does bind \<^verbatim>\<open>math\<close>, and the state after the
  purchase that the falling market then triggers.\<close>

definition env_with_math :: env where
  "env_with_math = env_example\<lparr>enums_names := ''math'' # enums_names env_example\<rparr>"

definition bought_example :: bot where
  "bought_example =
     \<lparr>position = \<lparr>in_position = True, quantity = 16 / 100, buy_price = 100\<rparr>,
      transactions =
        [\<lparr>tx_type = BUY, tx_timestamp = ''2024-01-01T00:00:00'', tx_symbol = ''BTCUSDT'',
          tx_price = 100, tx_quantity = 16 / 100, tx_value = 16,
          tx_profit = None, tx_profit_percent = None\<rparr>],
      orders = [(BUY, 16 / 100)],
      transactions_json =
        [[\<lparr>tx_type = BUY, tx_timestamp = ''2024-01-01T00:00:00'', tx_symbol = ''BTCUSDT'',
          tx_price = 100, tx_quantity = 16 / 100, tx_value = 16,
          tx_profit = None, tx_profit_percent = None\<rparr>]]\<rparr>"

text \<open>A last row with an RSI of 75.\<close>

definition latest_example :: "string \<rightharpoonup> fval" where
  "latest_example = [''rsi'' \<mapsto> Fin 75, ''upper_band'' \<mapsto> Fin 104, ''lower_band'' \<mapsto> Fin 100]"

section \<open>The indicators\<close>

subsection \<open>One RSI value\<close>

lemma rsi_value_Fin:
  assumes "0 \<le> q"
  shows "rsi_value (Fin q) = Fin (100 - 100 / (1 + q))"
    and "0 \<le> 100 - 100 / (1 + q)" and "100 - 100 / (1 + q) \<le> 100"
proof -
  have pos: "0 < 1 + q" using assms by simp
  then show "rsi_value (Fin q) = Fin (100 - 100 / (1 + q))"
    by (simp add: rsi_value_def fsub_def)
  have "100 / (1 + q) \<le> 100 / 1"
    using assms by (intro divide_left_mono) simp_all
  then show "0 \<le> 100 - 100 / (1 + q)" by simp
  have "0 \<le> 100 / (1 + q)" using pos by simp
  then show "100 - 100 / (1 + q) \<le> 100" by simp
qed

lemma rsi_value_range:
  assumes g: "nonneg_or_nan g" and l: "nonneg_or_nan l"
    and def: "rsi_value (fdiv g l) \<noteq> NaN"
  shows "\<exists>r. rsi_value (fdiv g l) = Fin r \<and> 0 \<le> r \<and> r \<le> 100"
proof -
  from g l def obtain a b where ab: "g = Fin a" "l = Fin b" "0 \<le> a" "0 \<le> b"
    by (cases g; cases l) (auto simp: nonneg_or_nan_def rsi_value_def fsub_def)
  show ?thesis
  proof (cases "b = 0")
    case True
    with ab def have "0 < a" by (auto simp: rsi_value_def fsub_def split: if_splits)
    with ab True have "rsi_value (fdiv g l) = Fin 100"
      by (simp add: rsi_value_def fsub_def)
    then show ?thesis by simp
  next
    case False
    with ab have q: "fdiv g l = Fin (a / b)" "0 \<le> a / b" by simp_all
    from rsi_value_Fin[OF q(2)] q(1) show ?thesis by auto
  qed
qed

lemma rsi_value_zero_loss:
  "rsi_value (fdiv g (Fin 0)) \<noteq> NaN \<Longrightarrow> rsi_value (fdiv g (Fin 0)) = Fin 100"
  by (cases g) (auto simp: rsi_value_def fsub_def split: if_splits)

subsection \<open>Rolling averages of gains and losses\<close>

lemma finite_values_Some: "finite_values xs = Some vs \<Longrightarrow> xs = map Fin vs"
proof (induction xs arbitrary: vs)
  case Nil then show ?case by simp
next
  case (Cons x xs)
  then show ?case by (cases x) auto
qed

lemma window_values_Some:
  assumes "window_values w xs i = Some vs"
  shows "Fin ` set vs \<subseteq> set xs"
proof -
  from assms have "finite_values (take w (drop (i + 1 - w) xs)) = Some vs"
    by (auto simp: window_values_def split: if_splits)
  then have "take w (drop (i + 1 - w) xs) = map Fin vs" by (rule finite_values_Some)
  then have "Fin ` set vs = set (take w (drop (i + 1 - w) xs))" by simp
  also have "\<dots> \<subseteq> set xs" by (meson set_take_subset set_drop_subset subset_trans)
  finally show ?thesis .
qed

lemma mean_nonneg: "\<forall>v\<in>set vs. 0 \<le> v \<Longrightarrow> 0 \<le> mean vs"
  by (simp add: mean_def sum_list_nonneg)

lemma rolling_mean_length: "rolling_mean w xs = Inr ys \<Longrightarrow> length ys = length xs"
  by (auto simp: rolling_mean_def split: if_splits)

lemma rolling_mean_nonneg:
  assumes "\<forall>x\<in>set xs. nonneg_or_nan x \<or> x = PInf"
    and "rolling_mean w xs = Inr ys" and "i < length ys"
  shows "nonneg_or_nan (ys ! i)"
proof -
  from assms(2) have ys: "ys = map (\<lambda>i. case window_values (nat w) xs i of
                            None \<Rightarrow> NaN
                          | Some vs \<Rightarrow> Fin (mean vs))
                    [0..<length xs]"
    by (auto simp: rolling_mean_def split: if_splits)
  with assms(3) have i: "i < length xs" by simp
  show ?thesis
  proof (cases "window_values (nat w) xs i")
    case None
    with ys i show ?thesis by (simp add: nonneg_or_nan_def)
  next
    case (Some vs)
    have "\<forall>v\<in>set vs. 0 \<le> v"
    proof
      fix v assume "v \<in> set vs"
      with window_values_Some[OF Some] have "Fin v \<in> set xs" by auto
      with assms(1) show "0 \<le> v" by (auto simp: nonneg_or_nan_def)
    qed
    then have "0 \<le> mean vs" by (rule mean_nonneg)
    with ys i Some show ?thesis by (simp add: nonneg_or_nan_def)
  qed
qed

lemma gain_nonneg: "\<forall>x\<in>set (gain delta). nonneg_or_nan x \<or> x = PInf"
proof
  fix x assume "x \<in> set (gain delta)"
  then obtain d where "x = (if flt d (Fin 0) then Fin 0 else d)"
    unfolding gain_def mask_def set_map by blast
  then show "nonneg_or_nan x \<or> x = PInf"
    by (cases d) (auto simp: nonneg_or_nan_def)
qed

lemma loss_nonneg: "\<forall>x\<in>set (loss delta). nonneg_or_nan x \<or> x = PInf"
proof
  fix x assume "x \<in> set (loss delta)"
  then obtain d where "x = fneg (if fgt d (Fin 0) then Fin 0 else d)"
    unfolding loss_def mask_def set_map map_map comp_def by blast
  then show "nonneg_or_nan x \<or> x = PInf"
    by (cases d) (auto simp: nonneg_or_nan_def fgt_def)
qed

lemma rsi_series_nth:
  "i < length (rsi_series g l) \<Longrightarrow> rsi_series g l ! i = rsi_value (fdiv (g ! i) (l ! i))"
  by (simp add: rsi_series_def)

lemma rsi_series_length: "length (rsi_series g l) = min (length g) (length l)"
  by (simp add: rsi_series_def)

text \<open>What a successful call of \<open>calculate_rsi\<close> has computed.\<close>

lemma calculate_rsi_Inr:
  assumes "calculate_rsi data period = (data', Inr rsi)"
  obtains close avg_gain avg_loss where
    "data ''close'' = Some close"
    "rolling_mean period (gain (diff close)) = Inr avg_gain"
    "rolling_mean period (loss (diff close)) = Inr avg_loss"
    "rsi = rsi_series avg_gain avg_loss"
  using assms
  by (auto simp: calculate_rsi_def Let_def split: option.splits sum.splits)

lemma calculate_rsi_frame: "fst (calculate_rsi data period) = data"
  by (auto simp: calculate_rsi_def Let_def split: option.splits sum.splits)

lemma rsi_value_fdiv_zero:
  assumes "nonneg_or_nan g"
  shows "(\<exists>a. g = Fin a \<and> 0 < a \<and> rsi_value (fdiv g (Fin 0)) = Fin 100)
       \<or> ((g = Fin 0 \<or> g = NaN) \<and> rsi_value (fdiv g (Fin 0)) = NaN)"
  using assms
  by (cases g) (auto simp: nonneg_or_nan_def rsi_value_def fsub_def)

text \<open>
  Claim C3, as the code has it. Where the rolling average of the losses is zero, the RSI that
  \<open>calculate_rsi\<close> returns is exactly 100 if the rolling average of the gains is positive, and
  undefined if that average is zero or undefined. Lines 135 and 136 have no test for the
  division by zero: the quotient is infinite or undefined, and \<open>100 - 100 / (1 + rs)\<close> passes
  it on.
\<close>

theorem rsi_where_average_loss_is_zero:
  assumes "calculate_rsi data period = (data', Inr rsi)"
    and "data ''close'' = Some close"
    and "rolling_mean period (gain (diff close)) = Inr avg_gain"
    and "rolling_mean period (loss (diff close)) = Inr avg_loss"
    and "i < length rsi"
    and "avg_loss ! i = Fin 0"
  shows "(\<exists>a. avg_gain ! i = Fin a \<and> 0 < a \<and> rsi ! i = Fin 100)
       \<or> ((avg_gain ! i = Fin 0 \<or> avg_gain ! i = NaN) \<and> rsi ! i = NaN)"
proof -
  from assms(1) obtain close' avg_gain' avg_loss' where c:
    "data ''close'' = Some close'"
    "rolling_mean period (gain (diff close')) = Inr avg_gain'"
    "rolling_mean period (loss (diff close')) = Inr avg_loss'"
    "rsi = rsi_series avg_gain' avg_loss'"
    by (rule calculate_rsi_Inr)
  with assms(2,3,4) have rsi: "rsi = rsi_series avg_gain avg_loss" by simp
  with assms(5) have i: "i < length avg_gain" by (simp add: rsi_series_length)
  have g: "nonneg_or_nan (avg_gain ! i)"
    using gain_nonneg assms(3) i by (rule rolling_mean_nonneg)
  from rsi assms(5,6) have "rsi ! i = rsi_value (fdiv (avg_gain ! i) (Fin 0))"
    by (simp add: rsi_series_nth)
  with rsi_value_fdiv_zero[OF g] show ?thesis by simp
qed

text \<open>
  Claim C10. Every value of the series that \<open>calculate_rsi\<close> returns is undefined or lies
  between 0 and 100, both included.
\<close>

theorem rsi_between_0_and_100:
  assumes "calculate_rsi data period = (data', Inr rsi)"
    and "i < length rsi"
    and "rsi ! i \<noteq> NaN"
  shows "\<exists>r. rsi ! i = Fin r \<and> 0 \<le> r \<and> r \<le> 100"
proof -
  from assms(1) obtain close avg_gain avg_loss where c:
    "rolling_mean period (gain (diff close)) = Inr avg_gain"
    "rolling_mean period (loss (diff close)) = Inr avg_loss"
    "rsi = rsi_series avg_gain avg_loss"
    by (rule calculate_rsi_Inr)
  from assms(2) c(3) have i: "i < length avg_gain" "i < length avg_loss"
    by (simp_all add: rsi_series_length)
  have g: "nonneg_or_nan (avg_gain ! i)"
    using gain_nonneg c(1) i(1) by (rule rolling_mean_nonneg)
  have l: "nonneg_or_nan (avg_loss ! i)"
    using loss_nonneg c(2) i(2) by (rule rolling_mean_nonneg)
  from assms(2,3) c(3) have "rsi_value (fdiv (avg_gain ! i) (avg_loss ! i)) \<noteq> NaN"
    by (simp add: rsi_series_nth)
  from rsi_value_range[OF g l this] assms(2) c(3) show ?thesis
    by (simp add: rsi_series_nth)
qed


lemmas series_eval =
  diff_def gain_def loss_def mask_def rolling_mean_def rolling_std_def window_values_def
  mean_def rsi_series_def rsi_value_def fsub_def fgt_def upt_rec

theorem rsi_where_average_loss_is_zero_witness:
  "calculate_rsi rising_example 2 = (rising_example, Inr [NaN, NaN, Fin 100])
   \<and> rolling_mean 2 (gain (diff [Fin 1, Fin 2, Fin 3])) = Inr [NaN, NaN, Fin 1]
   \<and> rolling_mean 2 (loss (diff [Fin 1, Fin 2, Fin 3])) = Inr [NaN, NaN, Fin 0]
   \<and> ((\<exists>a. [NaN, NaN, Fin 1] ! 2 = Fin a \<and> 0 < a \<and> [NaN, NaN, Fin 100] ! 2 = Fin 100)
       \<or> (([NaN, NaN, Fin 1] ! 2 = Fin 0 \<or> [NaN, NaN, Fin 1] ! 2 = NaN)
           \<and> [NaN, NaN, Fin 100] ! 2 = NaN))"
proof -
  have a: "calculate_rsi rising_example 2 = (rising_example, Inr [NaN, NaN, Fin 100])"
    by (simp add: calculate_rsi_def rising_example_def series_eval)
  have b: "rising_example ''close'' = Some [Fin 1, Fin 2, Fin 3]"
    by (simp add: rising_example_def)
  have g: "rolling_mean 2 (gain (diff [Fin 1, Fin 2, Fin 3])) = Inr [NaN, NaN, Fin 1]"
    by (simp add: series_eval)
  have l: "rolling_mean 2 (loss (diff [Fin 1, Fin 2, Fin 3])) = Inr [NaN, NaN, Fin 0]"
    by (simp add: series_eval)
  have i: "2 < length [NaN, NaN, Fin 100]" by simp
  have z: "[NaN, NaN, Fin 0] ! 2 = Fin 0" by simp
  note t = rsi_where_average_loss_is_zero[OF a b g l i z]
  from a g l t show ?thesis by (intro conjI)
qed

theorem rsi_between_0_and_100_witness:
  "calculate_rsi mixed_example 2 = (mixed_example, Inr [NaN, NaN, Fin (200 / 3), Fin 75])
   \<and> (\<exists>r. [NaN, NaN, Fin (200 / 3), Fin 75] ! 2 = Fin r \<and> 0 \<le> r \<and> r \<le> 100)"
proof -
  have a: "calculate_rsi mixed_example 2 = (mixed_example, Inr [NaN, NaN, Fin (200 / 3), Fin 75])"
    by (simp add: calculate_rsi_def mixed_example_def series_eval)
  have "\<exists>r. [NaN, NaN, Fin (200 / 3), Fin 75] ! 2 = Fin r \<and> 0 \<le> r \<and> r \<le> 100"
    by (rule rsi_between_0_and_100[OF a]) simp_all
  with a show ?thesis by blast
qed

text \<open>Claim C3 as stated fails: with constant prices the window is complete and the average
  loss is zero, and the RSI is undefined, not 100.\<close>

theorem flat_prices_rsi_undefined:
  "calculate_rsi flat_example 2 = (flat_example, Inr [NaN, NaN, NaN])
   \<and> rolling_mean 2 (loss (diff [Fin 1, Fin 1, Fin 1])) = Inr [NaN, NaN, Fin 0]
   \<and> [NaN, NaN, Fin 0] ! 2 = Fin 0
   \<and> [NaN, NaN, NaN] ! 2 = NaN
   \<and> [NaN, NaN, NaN] ! 2 \<noteq> Fin 100"
  by (simp add: calculate_rsi_def flat_example_def series_eval)

subsection \<open>Effect on the frame\<close>

lemma calculate_bollinger_bands_other_columns:
  assumes "k \<noteq> ''sma''" "k \<noteq> ''std''" "k \<noteq> ''upper_band''" "k \<noteq> ''lower_band''"
  shows "fst (calculate_bollinger_bands data period std_dev) k = data k"
  using assms
  by (auto simp: calculate_bollinger_bands_def Let_def split: option.splits sum.splits)

lemma calculate_bollinger_bands_Inr:
  assumes "snd (calculate_bollinger_bands data period std_dev) = Inr d"
  shows "fst (calculate_bollinger_bands data period std_dev) = d"
    and "d ''sma'' \<noteq> None" "d ''std'' \<noteq> None" "d ''upper_band'' \<noteq> None" "d ''lower_band'' \<noteq> None"
  using assms
  by (auto simp: calculate_bollinger_bands_def Let_def split: option.splits sum.splits)

text \<open>
  Claim C9, as the code has it. \<open>calculate_rsi\<close> leaves the frame it is given as it was.
  \<open>calculate_bollinger_bands\<close> writes into the frame it is given: all columns but
  \<^verbatim>\<open>sma\<close>, \<^verbatim>\<open>std\<close>, \<^verbatim>\<open>upper_band\<close> and \<^verbatim>\<open>lower_band\<close> stay as they were, and when the call
  returns, the frame it returns is the one it was given, now with these four columns.
\<close>

theorem indicators_effect_on_frame:
  "fst (calculate_rsi data period) = data
   \<and> (\<forall>k. k \<notin> {''sma'', ''std'', ''upper_band'', ''lower_band''}
          \<longrightarrow> fst (calculate_bollinger_bands data bperiod std_dev) k = data k)
   \<and> (\<forall>d. snd (calculate_bollinger_bands data bperiod std_dev) = Inr d
          \<longrightarrow> fst (calculate_bollinger_bands data bperiod std_dev) = d
              \<and> {''sma'', ''std'', ''upper_band'', ''lower_band''} \<subseteq> dom d)"
proof (intro conjI allI impI)
  show "fst (calculate_rsi data period) = data" by (rule calculate_rsi_frame)
next
  fix k :: string
  assume "k \<notin> {''sma'', ''std'', ''upper_band'', ''lower_band''}"
  then show "fst (calculate_bollinger_bands data bperiod std_dev) k = data k"
    by (intro calculate_bollinger_bands_other_columns) simp_all
next
  fix d assume d: "snd (calculate_bollinger_bands data bperiod std_dev) = Inr d"
  show "fst (calculate_bollinger_bands data bperiod std_dev) = d"
    using d by (rule calculate_bollinger_bands_Inr)
  show "{''sma'', ''std'', ''upper_band'', ''lower_band''} \<subseteq> dom d"
    using calculate_bollinger_bands_Inr(2-5)[OF d] by (auto simp: dom_def)
qed

lemma calculate_bollinger_bands_sma:
  assumes "data ''close'' = Some close" and "rolling_mean period close = Inr sma"
  shows "fst (calculate_bollinger_bands data period std_dev) ''sma'' = Some sma"
    and "\<exists>d. snd (calculate_bollinger_bands data period std_dev) = Inr d"
  using assms
  by (auto simp: calculate_bollinger_bands_def rolling_mean_def rolling_std_def Let_def
           split: if_splits)

lemma rolling_mean_rising:
  "rolling_mean 2 [Fin 1, Fin 2, Fin 3] = Inr [NaN, Fin (3 / 2), Fin (5 / 2)]"
  by (simp add: rolling_mean_def window_values_def mean_def upt_rec)

text \<open>Claim C9 as stated fails: after \<open>calculate_bollinger_bands\<close> the frame passed in has a
  column \<^verbatim>\<open>sma\<close> that it did not have.\<close>

theorem bollinger_changes_frame:
  "fst (calculate_bollinger_bands rising_example 2 2) ''sma'' = Some [NaN, Fin (3 / 2), Fin (5 / 2)]
   \<and> rising_example ''sma'' = None
   \<and> fst (calculate_bollinger_bands rising_example 2 2) \<noteq> rising_example"
proof -
  have c: "rising_example ''close'' = Some [Fin 1, Fin 2, Fin 3]"
    by (simp add: rising_example_def)
  have a: "fst (calculate_bollinger_bands rising_example 2 2) ''sma'' = Some [NaN, Fin (3 / 2), Fin (5 / 2)]"
    using c rolling_mean_rising by (rule calculate_bollinger_bands_sma)
  have b: "rising_example ''sma'' = None"
    by (simp add: rising_example_def)
  from a b have "fst (calculate_bollinger_bands rising_example 2 2) \<noteq> rising_example"
    by (metis option.distinct(1))
  with a b show ?thesis by blast
qed

theorem indicators_effect_on_frame_witness:
  "fst (calculate_rsi rising_example 2) = rising_example
   \<and> fst (calculate_bollinger_bands rising_example 2 2) ''close'' = rising_example ''close''
   \<and> ''sma'' \<in> dom (fst (calculate_bollinger_bands rising_example 2 2))"
proof -
  note t = indicators_effect_on_frame[of rising_example 2 2 2]
  have c: "rising_example ''close'' = Some [Fin 1, Fin 2, Fin 3]"
    by (simp add: rising_example_def)
  have n: "''close'' \<notin> {''sma'', ''std'', ''upper_band'', ''lower_band''}" by simp
  obtain d where d: "snd (calculate_bollinger_bands rising_example 2 2) = Inr d"
    using calculate_bollinger_bands_sma(2)[of rising_example, OF c rolling_mean_rising] by blast
  note t1 = t[THEN conjunct1]
  note t2 = t[THEN conjunct2, THEN conjunct1, rule_format, OF n]
  note t3 = t[THEN conjunct2, THEN conjunct2, rule_format, OF d]
  from t3 have t4: "''sma'' \<in> dom (fst (calculate_bollinger_bands rising_example 2 2))"
    by simp
  from t1 t2 t4 show ?thesis by (intro conjI)
qed


section \<open>The order functions\<close>

lemma name_defined_math: "name_defined e ''math'' \<longleftrightarrow> ''math'' \<in> set (enums_names e)"
  by (simp add: name_defined_def module_globals_def)

lemma except_return_false_eq:
  "except_return_false (r, s) = (r = Inr True, s)"
  by (cases r) (auto simp: except_return_false_def split: py_exception.splits)

lemma round_quantity_Inr:
  "round_quantity e q step = Inr q' \<Longrightarrow> name_defined e ''math''"
  by (auto simp: round_quantity_def split: if_splits)

text \<open>The ways an order function can end: nothing has changed, or the order went through
  and position and ledger record it; a sale can also go through and then fail to be
  recorded, when quantity times buy price is zero (line 227).\<close>

lemma buy_try_cases:
  assumes "buy_try e c price s = (r, s')"
  shows "(s' = s \<and> r \<noteq> Inr True)
       \<or> (r = Inr True \<and> name_defined e ''math''
           \<and> (\<exists>q t. create_order e BUY q = Inr ()
                 \<and> position s' = \<lparr>in_position = True, quantity = q, buy_price = price\<rparr>
                 \<and> transactions s' = transactions s @ [t]
                 \<and> tx_type t = BUY \<and> tx_quantity t = q \<and> tx_price t = price
                 \<and> orders s' = orders s @ [(BUY, q)]
                 \<and> transactions_json s' = transactions_json s))"
  using assms
  by (auto simp: buy_try_def Let_def dest: round_quantity_Inr
           split: sum.splits option.splits if_splits)

lemma sell_try_cases:
  assumes "sell_try e c price s = (r, s')"
  shows "(s' = s \<and> r \<noteq> Inr True)
       \<or> (r = Inl ZeroDivisionError \<and> in_position (position s)
           \<and> create_order e SELL (quantity (position s)) = Inr ()
           \<and> s' = s\<lparr>orders := orders s @ [(SELL, quantity (position s))]\<rparr>)
       \<or> (r = Inr True \<and> in_position (position s)
           \<and> create_order e SELL (quantity (position s)) = Inr ()
           \<and> position s' = \<lparr>in_position = False, quantity = 0, buy_price = 0\<rparr>
           \<and> (\<exists>t. transactions s' = transactions s @ [t] \<and> tx_type t = SELL)
           \<and> orders s' = orders s @ [(SELL, quantity (position s))]
           \<and> transactions_json s' = transactions_json s)"
  using assms
  by (auto simp: sell_try_def Let_def split: sum.splits if_splits)

lemma execute_buy_order_cases:
  assumes "execute_buy_order e c price s = (b, s')"
  shows "(s' = s \<and> \<not> b)
       \<or> (b \<and> name_defined e ''math''
           \<and> (\<exists>q t. create_order e BUY q = Inr ()
                 \<and> position s' = \<lparr>in_position = True, quantity = q, buy_price = price\<rparr>
                 \<and> transactions s' = transactions s @ [t]
                 \<and> tx_type t = BUY \<and> tx_quantity t = q \<and> tx_price t = price
                 \<and> orders s' = orders s @ [(BUY, q)]
                 \<and> transactions_json s' = transactions_json s))"
proof -
  obtain r s1 where r: "buy_try e c price s = (r, s1)" by (cases "buy_try e c price s")
  with assms have "b = (r = Inr True)" "s' = s1"
    by (simp_all add: execute_buy_order_def except_return_false_eq)
  with buy_try_cases[OF r] show ?thesis by blast
qed

lemma execute_sell_order_cases:
  assumes "execute_sell_order e c price s = (b, s')"
  shows "(s' = s \<and> \<not> b)
       \<or> (\<not> b \<and> in_position (position s)
           \<and> create_order e SELL (quantity (position s)) = Inr ()
           \<and> s' = s\<lparr>orders := orders s @ [(SELL, quantity (position s))]\<rparr>)
       \<or> (b \<and> in_position (position s)
           \<and> create_order e SELL (quantity (position s)) = Inr ()
           \<and> position s' = \<lparr>in_position = False, quantity = 0, buy_price = 0\<rparr>
           \<and> (\<exists>t. transactions s' = transactions s @ [t] \<and> tx_type t = SELL)
           \<and> orders s' = orders s @ [(SELL, quantity (position s))]
           \<and> transactions_json s' = transactions_json s)"
proof -
  obtain r s1 where r: "sell_try e c price s = (r, s1)" by (cases "sell_try e c price s")
  with assms have "b = (r = Inr True)" "s' = s1"
    by (simp_all add: execute_sell_order_def except_return_false_eq)
  with sell_try_cases[OF r] show ?thesis by blast
qed

lemma execute_buy_order_no_math:
  assumes "''math'' \<notin> set (enums_names e)"
  shows "execute_buy_order e c price s = (False, s)"
proof -
  obtain b s' where r: "execute_buy_order e c price s = (b, s')"
    by (cases "execute_buy_order e c price s")
  from execute_buy_order_cases[OF r] assms have "s' = s \<and> \<not> b"
    by (auto simp: name_defined_math)
  with r show ?thesis by simp
qed

text \<open>
  Claim C1. The module binds no name \<^verbatim>\<open>math\<close> unless the star import does. Then, for every
  price, every state and every answer of the surroundings, \<open>execute_buy_order\<close> returns
  \<^verbatim>\<open>False\<close> and leaves the whole state as it was: the position, the transactions, and the
  orders accepted by the exchange. Every path either returns \<^verbatim>\<open>False\<close> or raises before line
  166, and line 166 raises \<^verbatim>\<open>NameError\<close>, which the second handler turns into \<^verbatim>\<open>False\<close>.
\<close>

theorem execute_buy_order_always_fails:
  assumes "''math'' \<notin> set (enums_names e)"
  shows "execute_buy_order e c price s = (False, s)"
  using assms by (rule execute_buy_order_no_math)

theorem execute_buy_order_always_fails_witness:
  "''math'' \<notin> set (enums_names env_example)
   \<and> asset_balance env_example = Inr 16
   \<and> 16 \<ge> min_order_value config_example
   \<and> find (\<lambda>f. filterType f = ''LOT_SIZE'') [\<lparr>filterType = ''PRICE_FILTER'', stepSize = Inl KeyError\<rparr>,
             \<lparr>filterType = ''LOT_SIZE'', stepSize = Inr (1 / 1000)\<rparr>] = Some \<lparr>filterType = ''LOT_SIZE'', stepSize = Inr (1 / 1000)\<rparr>
   \<and> execute_buy_order env_example config_example 100 init_bot = (False, init_bot)"
proof -
  have m: "''math'' \<notin> set (enums_names env_example)" by (simp add: env_example_def)
  from execute_buy_order_always_fails[OF m]
  have "execute_buy_order env_example config_example 100 init_bot = (False, init_bot)" .
  with m show ?thesis by (simp add: env_example_def config_example_def)
qed

text \<open>The same run, step by step.\<close>

lemma buy_try_example:
  "buy_try env_example config_example 100 init_bot = (Inl NameError, init_bot)"
  by (simp add: buy_try_def env_example_def config_example_def round_quantity_def
        name_defined_def module_globals_def)

text \<open>
  Claim C2 is not what the code does. For a raw quantity of 0.0016 and a step size of 0.001
  the rounding of lines 166 and 167 yields no quantity at all: it raises \<^verbatim>\<open>NameError\<close>.
\<close>

theorem round_quantity_raises:
  "round_quantity env_example (16 / 10000) (1 / 1000) = Inl NameError"
  by (simp add: round_quantity_def name_defined_def module_globals_def env_example_def)


lemma log10_thousandth: "log 10 (1 / 1000) = - 3"
proof -
  have "log 10 (1 / 1000) = log 10 (10 powr (- 3))"
    by (simp add: powr_minus_divide)
  also have "\<dots> = - 3" by (simp only: log_powr_cancel) 
  finally show ?thesis .
qed

lemma py_round_3: "py_round 3 = 3"
  by (simp add: py_round_def)

lemma py_round_ex: "py_round (16 / 10) = 2"
proof -
  have "\<lfloor>16 / 10 :: real\<rfloor> = 1" by linarith
  then show ?thesis by (simp add: py_round_def Let_def)
qed

text \<open>Were \<^verbatim>\<open>math\<close> bound, the same input would be rounded to the nearest multiple, 0.002,
  which is more than the raw quantity.\<close>

lemma round_quantity_with_math:
  "round_quantity (env_example\<lparr>enums_names := [''math'']\<rparr>) (16 / 10000) (1 / 1000) = Inr (2 / 1000)"
proof -
  have "name_defined (env_example\<lparr>enums_names := [''math'']\<rparr>) ''math''"
    by (simp add: name_defined_def module_globals_def)
  moreover have "py_round (- log 10 (1 / 1000)) = 3"
    by (simp only: log10_thousandth minus_minus py_round_3)
  moreover have "py_round_ndigits (16 / 10000) 3 = 2 / 1000"
    using py_round_ex by (simp add: py_round_ndigits_def)
  ultimately show ?thesis
    by (simp add: round_quantity_def Let_def)
qed


subsection \<open>A sale without a position\<close>


subsection \<open>Failed submission\<close>

lemma execute_buy_order_rejected:
  assumes "\<forall>q. isl (create_order e BUY q)"
  shows "execute_buy_order e c price s = (False, s)"
proof -
  obtain b s' where r: "execute_buy_order e c price s = (b, s')"
    by (cases "execute_buy_order e c price s")
  from execute_buy_order_cases[OF r] assms have "s' = s \<and> \<not> b"
    by (metis sum.disc(2))
  with r show ?thesis by simp
qed

lemma execute_sell_order_rejected:
  assumes "isl (create_order e SELL (quantity (position s)))"
  shows "execute_sell_order e c price s = (False, s)"
proof -
  obtain b s' where r: "execute_sell_order e c price s = (b, s')"
    by (cases "execute_sell_order e c price s")
  from execute_sell_order_cases[OF r] assms have "s' = s \<and> \<not> b"
    by (metis sum.disc(2))
  with r show ?thesis by simp
qed

text \<open>
  Claim C6. When \<^verbatim>\<open>create_order\<close> raises, \<open>execute_buy_order\<close> and \<open>execute_sell_order\<close> return
  \<^verbatim>\<open>False\<close> and the state after the call is the state before it. This holds whether or not
  the name \<^verbatim>\<open>math\<close> is bound: both functions change position and transactions only after
  \<^verbatim>\<open>create_order\<close> has returned.
\<close>

theorem failed_submission_changes_nothing:
  "((\<forall>q. isl (create_order e BUY q)) \<longrightarrow> execute_buy_order e c price s = (False, s))
   \<and> (isl (create_order e SELL (quantity (position s)))
        \<longrightarrow> execute_sell_order e c price s = (False, s))"
  by (simp add: execute_buy_order_rejected execute_sell_order_rejected)

theorem failed_submission_changes_nothing_witness:
  "(\<forall>q. isl (create_order env_rejecting BUY q))
   \<and> execute_buy_order env_rejecting config_example 100 init_bot = (False, init_bot)
   \<and> in_position (position long_example)
   \<and> isl (create_order env_rejecting SELL (quantity (position long_example)))
   \<and> execute_sell_order env_rejecting config_example 100 long_example = (False, long_example)"
proof -
  have a: "\<forall>q. isl (create_order env_rejecting BUY q)"
    by (simp add: env_rejecting_def)
  have b: "isl (create_order env_rejecting SELL (quantity (position long_example)))"
    by (simp add: env_rejecting_def)
  have c: "in_position (position long_example)" by (simp add: long_example_def)
  note t1 = failed_submission_changes_nothing[where e = env_rejecting and c = config_example
      and price = 100 and s = init_bot,
      THEN conjunct1, THEN mp, OF a]
  note t2 = failed_submission_changes_nothing[where e = env_rejecting and c = config_example
      and price = 100 and s = long_example,
      THEN conjunct2, rule_format, OF b]
  from a b c t1 t2 show ?thesis by (intro conjI)
qed

text \<open>The sale of the example position does reach the exchange, which rejects it.\<close>

lemma sell_try_rejected_example:
  "sell_try env_rejecting config_example 100 long_example = (Inl BinanceAPIException, long_example)"
  by (simp add: sell_try_def env_rejecting_def long_example_def)


section \<open>One analysis\<close>

subsection \<open>The branch taken\<close>

lemma trade_signal_position:
  "trade_signal c p rsi u l price = Buy_signal \<Longrightarrow> \<not> in_position p"
  "trade_signal c p rsi u l price = Sell_signal \<Longrightarrow> in_position p"
  "trade_signal c p rsi u l price = Stop_loss_check \<Longrightarrow> in_position p"
  "trade_signal c p rsi u l price = No_signal \<Longrightarrow> \<not> in_position p"
  by (auto simp: trade_signal_def split: if_splits)

lemma trade_signal_sell:
  assumes "in_position p"
    and "fgt rsi (Fin (rsi_overbought c)) \<or> fge (Fin price) (fmul u (Fin 0.98))"
  shows "trade_signal c p rsi u l price = Sell_signal"
  using assms by (simp add: trade_signal_def)

lemma trade_signal_stop_loss:
  assumes "trade_signal c p rsi u l price = Stop_loss_check"
  shows "\<not> (fgt rsi (Fin (rsi_overbought c)) \<or> fge (Fin price) (fmul u (Fin 0.98)))"
  using assms by (auto simp: trade_signal_def split: if_splits)

lemma trade_logic_sell:
  assumes "latest ''rsi'' = Some rsi" "latest ''upper_band'' = Some u" "latest ''lower_band'' = Some l"
    and "trade_signal c (position s) rsi u l price = Sell_signal"
    and "buy_price (position s) \<noteq> 0"
  shows "trade_logic e c price latest s = (Inr (), snd (execute_sell_order e c price s))"
  using assms by (simp add: trade_logic_def)

text \<open>The branch leaves the state alone, or buys without a position, or sells with one.\<close>

lemma trade_logic_cases:
  assumes "trade_logic e c price latest s = (r, s')"
  shows "s' = s
       \<or> (\<not> in_position (position s) \<and> s' = snd (execute_buy_order e c price s))
       \<or> (in_position (position s) \<and> s' = snd (execute_sell_order e c price s))"
proof (cases "latest ''rsi''")
  case None
  with assms show ?thesis by (simp add: trade_logic_def)
next
  case rsi: (Some rsi)
  show ?thesis
  proof (cases "latest ''upper_band''")
    case None
    with assms rsi show ?thesis by (simp add: trade_logic_def)
  next
    case u: (Some u)
    show ?thesis
    proof (cases "latest ''lower_band''")
      case None
      with assms rsi u show ?thesis by (simp add: trade_logic_def)
    next
      case l: (Some l)
      show ?thesis
      proof (cases "trade_signal c (position s) rsi u l price")
        case Buy_signal
        with assms rsi u l trade_signal_position(1)[OF Buy_signal] show ?thesis
          by (auto simp: trade_logic_def)
      next
        case Sell_signal
        with assms rsi u l trade_signal_position(2)[OF Sell_signal] show ?thesis
          by (auto simp: trade_logic_def split: if_splits)
      next
        case Stop_loss_check
        with assms rsi u l trade_signal_position(3)[OF Stop_loss_check] show ?thesis
          by (auto simp: trade_logic_def Let_def split: if_splits)
      next
        case No_signal
        with assms rsi u l show ?thesis by (simp add: trade_logic_def)
      qed
    qed
  qed
qed

lemma save_transactions_ledger [simp]:
  "position (save_transactions e s) = position s"
  "transactions (save_transactions e s) = transactions s"
  by (simp_all add: save_transactions_def)

lemma analyze_and_trade_cases:
  assumes "analyze_and_trade e c s = (r, s')"
  shows "\<exists>s1 price. (s' = s1 \<or> s' = save_transactions e s1)
           \<and> (s1 = s
              \<or> (\<not> in_position (position s) \<and> s1 = snd (execute_buy_order e c price s))
              \<or> (in_position (position s) \<and> s1 = snd (execute_sell_order e c price s)))"
proof (cases "analyze e c")
  case (Inl x)
  with assms show ?thesis by (auto simp: analyze_and_trade_def)
next
  case (Inr a)
  show ?thesis
  proof (cases a)
    case None
    with assms Inr show ?thesis by (auto simp: analyze_and_trade_def)
  next
    case (Some lp)
    obtain latest price where lp: "lp = (latest, price)" by (cases lp)
    obtain r1 s1 where t: "trade_logic e c price latest s = (r1, s1)"
      by (cases "trade_logic e c price latest s")
    from assms Inr Some lp t have "s' = s1 \<or> s' = save_transactions e s1"
      by (auto simp: analyze_and_trade_def split: sum.splits)
    with trade_logic_cases[OF t] Inr Some lp show ?thesis by auto
  qed
qed


subsection \<open>Position and ledger\<close>

lemma count_type_append [simp]:
  "count_type k (txs @ [t]) = count_type k txs + (if tx_type t = k then 1 else 0)"
  by (simp add: count_type_def)

lemma last_buy_append_BUY [simp]: "tx_type t = BUY \<Longrightarrow> last_buy (txs @ [t]) = Some t"
  by (simp add: last_buy_def)

lemma ledger_shape_init: "ledger_shape init_bot"
  by (simp add: ledger_shape_def init_bot_def count_type_def)

lemma ledger_shape_buy:
  assumes "ledger_shape s" and "\<not> in_position (position s)"
  shows "ledger_shape (snd (execute_buy_order e c price s))"
proof -
  obtain b s' where r: "execute_buy_order e c price s = (b, s')"
    by (cases "execute_buy_order e c price s")
  from execute_buy_order_cases[OF r] consider
      (same) "s' = s"
    | (bought) q t where
        "position s' = \<lparr>in_position = True, quantity = q, buy_price = price\<rparr>"
        "transactions s' = transactions s @ [t]"
        "tx_type t = BUY" "tx_quantity t = q" "tx_price t = price"
    by blast
  then have "ledger_shape s'"
  proof cases
    case same
    with assms(1) show ?thesis by simp
  next
    case bought
    with assms show ?thesis by (simp add: ledger_shape_def matches_position_def)
  qed
  with r show ?thesis by simp
qed

lemma ledger_shape_sell:
  assumes "ledger_shape s" and "in_position (position s)"
  shows "ledger_shape (snd (execute_sell_order e c price s))"
proof -
  obtain b s' where r: "execute_sell_order e c price s = (b, s')"
    by (cases "execute_sell_order e c price s")
  from execute_sell_order_cases[OF r] consider
      (same) "s' = s"
    | (ordered) "s' = s\<lparr>orders := orders s @ [(SELL, quantity (position s))]\<rparr>"
    | (sold) t where
        "position s' = \<lparr>in_position = False, quantity = 0, buy_price = 0\<rparr>"
        "transactions s' = transactions s @ [t]" "tx_type t = SELL"
    by blast
  then have "ledger_shape s'"
  proof cases
    case same
    with assms(1) show ?thesis by simp
  next
    case ordered
    with assms(1) show ?thesis by (simp add: ledger_shape_def)
  next
    case sold
    with assms show ?thesis by (simp add: ledger_shape_def)
  qed
  with r show ?thesis by simp
qed

lemma ledger_shape_save: "ledger_shape s \<Longrightarrow> ledger_shape (save_transactions e s)"
  by (simp add: ledger_shape_def)

lemma ledger_shape_cycle:
  assumes "ledger_shape s" and "analyze_and_trade e c s = (r, s')"
  shows "ledger_shape s'"
proof -
  from analyze_and_trade_cases[OF assms(2)] obtain s1 price where
    s': "s' = s1 \<or> s' = save_transactions e s1"
    and s1: "s1 = s
        \<or> (\<not> in_position (position s) \<and> s1 = snd (execute_buy_order e c price s))
        \<or> (in_position (position s) \<and> s1 = snd (execute_sell_order e c price s))"
    by blast
  from s1 assms(1) have "ledger_shape s1"
    by (auto intro: ledger_shape_buy ledger_shape_sell)
  with s' show ?thesis by (auto intro: ledger_shape_save)
qed

lemma reachable_ledger_shape: "reachable c s \<Longrightarrow> ledger_shape s"
  by (induction rule: reachable.induct) (auto intro: ledger_shape_init ledger_shape_cycle)

lemma last_buy_last:
  assumes "txs \<noteq> []" and "tx_type (last txs) = BUY"
  shows "last_buy txs = Some (last txs)"
proof -
  from assms(1) have "txs = butlast txs @ [last txs]" by simp
  then have "last_buy txs = last_buy (butlast txs @ [last txs])" by simp
  also from assms(2) have "\<dots> = Some (last txs)" by (rule last_buy_append_BUY)
  finally show ?thesis .
qed

lemma ledger_shape_invariant: "ledger_shape s \<Longrightarrow> ledger_invariant s"
  by (auto simp: ledger_shape_def ledger_invariant_def last_buy_last split: if_splits)

text \<open>
  Claim C7. In every state that the bot reaches from its initial state by analyses, the
  position is open if and only if the ledger holds exactly one purchase more than sales,
  and then quantity and buy price of the position are those of the latest purchase in the
  ledger. This holds whatever the surroundings answer, also where the name \<^verbatim>\<open>math\<close> is bound
  and purchases go through: \<open>analyze_and_trade\<close> buys only without a position and sells only
  with one.
\<close>

theorem position_matches_ledger:
  assumes "reachable c s"
  shows "ledger_invariant s"
  using assms by (intro ledger_shape_invariant reachable_ledger_shape)

subsection \<open>The falling market\<close>

lemma rsi_falling:
  "calculate_rsi [''close'' \<mapsto> [Fin 104, Fin 103, Fin 102, Fin 101]] 2
   = ([''close'' \<mapsto> [Fin 104, Fin 103, Fin 102, Fin 101]], Inr [NaN, NaN, Fin 0, Fin 0])"
  by (simp add: calculate_rsi_def series_eval)

lemma rolling_mean_falling:
  "rolling_mean 3 [Fin 104, Fin 103, Fin 102, Fin 101] = Inr [NaN, NaN, Fin 103, Fin 102]"
  by (simp add: rolling_mean_def window_values_def mean_def upt_rec)

lemma rolling_std_falling:
  "rolling_std 3 [Fin 104, Fin 103, Fin 102, Fin 101] = Inr [NaN, NaN, Fin 1, Fin 1]"
  by (simp add: rolling_std_def window_values_def mean_def sample_std_def upt_rec)

lemma analyze_falling:
  assumes "historical_klines e = Inr [Fin 104, Fin 103, Fin 102, Fin 101]"
    and "symbol_ticker e = Inr 100"
  shows "\<exists>latest. analyze e config_example = Inr (Some (latest, 100))
           \<and> latest ''rsi'' = Some (Fin 0)
           \<and> latest ''upper_band'' = Some (Fin 104)
           \<and> latest ''lower_band'' = Some (Fin 100)"
  using assms
  by (simp add: analyze_def get_historical_data_def nrows_def config_example_def rsi_falling
        calculate_bollinger_bands_def rolling_mean_falling rolling_std_falling Let_def
        iloc_last_def fsub_def)

subsection \<open>Too small a balance\<close>

lemma analyze_latest:
  assumes "analyze e c = Inr (Some (latest, price))"
  shows "\<exists>rsi u l. latest ''rsi'' = Some rsi \<and> latest ''upper_band'' = Some u
           \<and> latest ''lower_band'' = Some l"
  using assms
  by (auto simp: analyze_def calculate_rsi_def calculate_bollinger_bands_def iloc_last_def Let_def
           split: option.splits sum.splits if_splits prod.splits)

lemma trade_logic_flat_no_purchase:
  assumes "\<not> in_position (position s)"
    and "execute_buy_order e c price s = (False, s)"
    and "latest ''rsi'' = Some rsi" "latest ''upper_band'' = Some u" "latest ''lower_band'' = Some l"
  shows "trade_logic e c price latest s = (Inr (), s)"
proof (cases "trade_signal c (position s) rsi u l price")
  case Buy_signal
  with assms show ?thesis by (simp add: trade_logic_def)
next
  case Sell_signal
  from trade_signal_position(2)[OF this] assms(1) show ?thesis by simp
next
  case Stop_loss_check
  from trade_signal_position(3)[OF this] assms(1) show ?thesis by simp
next
  case No_signal
  with assms show ?thesis by (simp add: trade_logic_def)
qed

lemma execute_buy_order_poor:
  assumes "asset_balance e = Inr balance" and "balance < min_order_value c"
  shows "execute_buy_order e c price s = (False, s)"
  using assms by (simp add: execute_buy_order_def buy_try_def except_return_false_eq)

lemma cycle_poor:
  assumes "\<not> in_position (position s)"
    and "asset_balance e = Inr balance" and "balance < min_order_value c"
  shows "position (snd (analyze_and_trade e c s)) = position s"
    and "transactions (snd (analyze_and_trade e c s)) = transactions s"
    and "analyze e c = Inr (Some (latest, p)) \<Longrightarrow>
         analyze_and_trade e c s = (Inr (), save_transactions e s)"
proof -
  have buy: "\<And>price. execute_buy_order e c price s = (False, s)"
    using assms(2,3) by (rule execute_buy_order_poor)
  obtain r s' where r: "analyze_and_trade e c s = (r, s')"
    by (cases "analyze_and_trade e c s")
  from analyze_and_trade_cases[OF r] assms(1) buy
  have "s' = s \<or> s' = save_transactions e s" by auto
  with r show "position (snd (analyze_and_trade e c s)) = position s"
    and "transactions (snd (analyze_and_trade e c s)) = transactions s"
    by auto
  assume a: "analyze e c = Inr (Some (latest, p))"
  from analyze_latest[OF a] obtain rsi u l where
    k: "latest ''rsi'' = Some rsi" "latest ''upper_band'' = Some u" "latest ''lower_band'' = Some l"
    by blast
  from trade_logic_flat_no_purchase[OF assms(1) buy k] a
  show "analyze_and_trade e c s = (Inr (), save_transactions e s)"
    by (simp add: analyze_and_trade_def)
qed

text \<open>
  Claim C5, as the code has it. Without an open position and with a balance below
  \<^verbatim>\<open>min_order_value\<close>, \<open>execute_buy_order\<close> returns \<^verbatim>\<open>False\<close> and changes nothing, and an analysis
  leaves position and transactions as they were. But an analysis that gets as far as the
  trading logic ends with \<open>save_transactions\<close> (line 313): when the write succeeds, the
  unchanged list of transactions is written to the file once more.
\<close>

theorem insufficient_balance_cycle:
  assumes "\<not> in_position (position s)"
    and "asset_balance e = Inr balance" and "balance < min_order_value c"
  shows "execute_buy_order e c price s = (False, s)
       \<and> position (snd (analyze_and_trade e c s)) = position s
       \<and> transactions (snd (analyze_and_trade e c s)) = transactions s
       \<and> (\<forall>latest p. analyze e c = Inr (Some (latest, p)) \<longrightarrow>
            analyze_and_trade e c s =
              (Inr (), if dump_ok e
                       then s\<lparr>transactions_json := transactions_json s @ [transactions s]\<rparr>
                       else s))"
  using execute_buy_order_poor[OF assms(2,3)] cycle_poor[OF assms]
  by (simp add: save_transactions_def)

lemma cycle_poor_example:
  "analyze_and_trade env_poor config_example init_bot
   = (Inr (), init_bot\<lparr>transactions_json := [[]]\<rparr>)"
proof -
  have k: "historical_klines env_poor = Inr [Fin 104, Fin 103, Fin 102, Fin 101]"
    "symbol_ticker env_poor = Inr 100"
    by (simp_all add: env_poor_def env_example_def)
  from analyze_falling[OF k] obtain latest where
    a: "analyze env_poor config_example = Inr (Some (latest, 100))" by blast
  have "analyze_and_trade env_poor config_example init_bot
        = (Inr (), save_transactions env_poor init_bot)"
    using _ _ _ a
    by (rule cycle_poor(3)[where balance = 5])
       (simp_all add: init_bot_def env_poor_def config_example_def)
  then show ?thesis
    by (simp add: save_transactions_def env_poor_def env_example_def init_bot_def)
qed

text \<open>Claim C5 as stated fails: the bot has no position, the balance of 5 is below the
  minimum of 10, the buy signal fires and the purchase is refused, and the analysis writes
  the file.\<close>

theorem low_balance_cycle_still_saves:
  "\<not> in_position (position init_bot)
   \<and> asset_balance env_poor = Inr 5
   \<and> 5 < min_order_value config_example
   \<and> trade_signal config_example (position init_bot) (Fin 0) (Fin 104) (Fin 100) 100 = Buy_signal
   \<and> execute_buy_order env_poor config_example 100 init_bot = (False, init_bot)
   \<and> transactions_json init_bot = []
   \<and> transactions_json (snd (analyze_and_trade env_poor config_example init_bot)) = [[]]"
proof -
  have "execute_buy_order env_poor config_example 100 init_bot = (False, init_bot)"
    by (rule execute_buy_order_poor[where balance = 5])
       (simp_all add: env_poor_def config_example_def)
  moreover have "trade_signal config_example (position init_bot) (Fin 0) (Fin 104) (Fin 100) 100
                 = Buy_signal"
    by (simp add: trade_signal_def config_example_def init_bot_def)
  ultimately show ?thesis
    by (simp add: cycle_poor_example) (simp add: init_bot_def env_poor_def config_example_def)
qed

theorem insufficient_balance_cycle_witness:
  "\<not> in_position (position init_bot)
   \<and> asset_balance env_poor = Inr 5
   \<and> 5 < min_order_value config_example
   \<and> execute_buy_order env_poor config_example 100 init_bot = (False, init_bot)
   \<and> analyze_and_trade env_poor config_example init_bot
       = (Inr (), init_bot\<lparr>transactions_json := [[]]\<rparr>)"
proof -
  have h: "\<not> in_position (position init_bot)" "asset_balance env_poor = Inr 5"
    "5 < min_order_value config_example"
    by (simp_all add: init_bot_def env_poor_def config_example_def)
  have k: "historical_klines env_poor = Inr [Fin 104, Fin 103, Fin 102, Fin 101]"
    "symbol_ticker env_poor = Inr 100"
    by (simp_all add: env_poor_def env_example_def)
  from analyze_falling[OF k] obtain latest where
    a: "analyze env_poor config_example = Inr (Some (latest, 100))" by blast
  note t = insufficient_balance_cycle[OF h, where price = 100]
  from t have t1: "execute_buy_order env_poor config_example 100 init_bot = (False, init_bot)"
    by (rule conjunct1)
  have d: "dump_ok env_poor" by (simp add: env_poor_def env_example_def)
  from t[THEN conjunct2, THEN conjunct2, THEN conjunct2, rule_format, OF a] d
  have "analyze_and_trade env_poor config_example init_bot
        = (Inr (), init_bot\<lparr>transactions_json := transactions_json init_bot @ [transactions init_bot]\<rparr>)"
    by simp
  then have t2: "analyze_and_trade env_poor config_example init_bot
       = (Inr (), init_bot\<lparr>transactions_json := [[]]\<rparr>)"
    by (simp add: init_bot_def)
  from h t1 t2 show ?thesis by (intro conjI)
qed

subsection \<open>Selling before the stop-loss\<close>

text \<open>
  Claim C8. With an open position, whenever the RSI is above \<^verbatim>\<open>rsi_overbought\<close> or the price
  is at least 0.98 times the upper band, the branch taken is the sell signal, whatever the
  loss: with the three indicator values in the last row and a buy price other than zero the
  trading logic is then \<open>execute_sell_order\<close>. The stop-loss check is reached only when that
  condition is false. (With a buy price of zero the sell branch raises
  \<^verbatim>\<open>ZeroDivisionError\<close> at line 301 before it sells; no purchase leaves such a position.)
\<close>

theorem sell_signal_before_stop_loss:
  assumes "in_position (position s)"
  shows "(fgt rsi (Fin (rsi_overbought c)) \<or> fge (Fin price) (fmul upper_band (Fin 0.98))
          \<longrightarrow> trade_signal c (position s) rsi upper_band lower_band price = Sell_signal
              \<and> (latest ''rsi'' = Some rsi \<and> latest ''upper_band'' = Some upper_band
                  \<and> latest ''lower_band'' = Some lower_band \<and> buy_price (position s) \<noteq> 0
                  \<longrightarrow> trade_logic e c price latest s
                      = (Inr (), snd (execute_sell_order e c price s))))
       \<and> (trade_signal c (position s) rsi upper_band lower_band price = Stop_loss_check
          \<longrightarrow> \<not> (fgt rsi (Fin (rsi_overbought c))
                  \<or> fge (Fin price) (fmul upper_band (Fin 0.98))))"
proof (intro conjI impI)
  assume cond: "fgt rsi (Fin (rsi_overbought c)) \<or> fge (Fin price) (fmul upper_band (Fin 0.98))"
  with assms show sig: "trade_signal c (position s) rsi upper_band lower_band price = Sell_signal"
    by (rule trade_signal_sell)
  assume "latest ''rsi'' = Some rsi \<and> latest ''upper_band'' = Some upper_band
          \<and> latest ''lower_band'' = Some lower_band \<and> buy_price (position s) \<noteq> 0"
  with sig show "trade_logic e c price latest s = (Inr (), snd (execute_sell_order e c price s))"
    by (intro trade_logic_sell) simp_all
next
  assume "trade_signal c (position s) rsi upper_band lower_band price = Stop_loss_check"
  then show "\<not> (fgt rsi (Fin (rsi_overbought c)) \<or> fge (Fin price) (fmul upper_band (Fin 0.98)))"
    by (rule trade_signal_stop_loss)
qed

lemma execute_sell_order_example:
  "execute_sell_order env_example config_example 94 long_example
   = (True,
      \<lparr>position = \<lparr>in_position = False, quantity = 0, buy_price = 0\<rparr>,
       transactions = transactions long_example @
         [\<lparr>tx_type = SELL, tx_timestamp = ''2024-01-01T00:00:00'', tx_symbol = ''BTCUSDT'',
           tx_price = 94, tx_quantity = 1 / 10, tx_value = 94 / 10,
           tx_profit = Some (- 6 / 10), tx_profit_percent = Some (- 6)\<rparr>],
       orders = [(BUY, 1 / 10), (SELL, 1 / 10)],
       transactions_json = []\<rparr>)"
  by (simp add: execute_sell_order_def sell_try_def except_return_false_eq env_example_def
        config_example_def long_example_def Let_def)

theorem sell_signal_before_stop_loss_witness:
  "in_position (position long_example)
   \<and> fgt (Fin 75) (Fin (rsi_overbought config_example))
   \<and> (94 - buy_price (position long_example)) / buy_price (position long_example) * 100
       < - max_loss_percent config_example
   \<and> trade_signal config_example (position long_example) (Fin 75) (Fin 104) (Fin 100) 94
       = Sell_signal
   \<and> trade_logic env_example config_example 94 latest_example long_example
       = (Inr (), snd (execute_sell_order env_example config_example 94 long_example))"
proof -
  have p: "in_position (position long_example)" by (simp add: long_example_def)
  have r: "fgt (Fin 75) (Fin (rsi_overbought config_example))"
    by (simp add: fgt_def config_example_def)
  have l: "(94 - buy_price (position long_example)) / buy_price (position long_example) * 100
       < - max_loss_percent config_example"
    by (simp add: long_example_def config_example_def)
  have k: "latest_example ''rsi'' = Some (Fin 75) \<and> latest_example ''upper_band'' = Some (Fin 104)
     \<and> latest_example ''lower_band'' = Some (Fin 100) \<and> buy_price (position long_example) \<noteq> 0"
    by (simp add: latest_example_def long_example_def)
  note t = sell_signal_before_stop_loss[OF p, where rsi = "Fin 75" and c = config_example
      and price = 94 and upper_band = "Fin 104" and lower_band = "Fin 100"
      and latest = latest_example and e = env_example, THEN conjunct1, THEN mp, OF disjI1, OF r]
  note t1 = t[THEN conjunct1]
  note t2 = t[THEN conjunct2, THEN mp, OF k]
  from p r l t1 t2 show ?thesis by (intro conjI)
qed

subsection \<open>A purchase\<close>

lemma py_round_of_int: "py_round (of_int n) = n"
  by (simp add: py_round_def)

lemma round_quantity_example_with_math:
  "round_quantity env_with_math (16 / 100) (1 / 1000) = Inr (16 / 100)"
proof -
  have "name_defined env_with_math ''math''"
    by (simp add: name_defined_def module_globals_def env_with_math_def)
  moreover have "py_round (- log 10 (1 / 1000)) = 3"
    by (simp only: log10_thousandth minus_minus py_round_3)
  moreover have "py_round_ndigits (16 / 100) 3 = 16 / 100"
    using py_round_of_int[of 160] by (simp add: py_round_ndigits_def)
  ultimately show ?thesis
    by (simp add: round_quantity_def Let_def)
qed

lemma execute_buy_order_example_with_math:
  "execute_buy_order env_with_math config_example 100 init_bot
   = (True, bought_example\<lparr>transactions_json := []\<rparr>)"
proof -
  have env: "asset_balance env_with_math = Inr 16"
    "symbol_info env_with_math =
        Inr [\<lparr>filterType = ''PRICE_FILTER'', stepSize = Inl KeyError\<rparr>,
             \<lparr>filterType = ''LOT_SIZE'', stepSize = Inr (1 / 1000)\<rparr>]"
    "\<And>q. create_order env_with_math BUY q = Inr ()"
    "now env_with_math = ''2024-01-01T00:00:00''"
    by (simp_all add: env_with_math_def env_example_def)
  note rq = round_quantity_example_with_math[simplified]
  show ?thesis
    by (simp add: execute_buy_order_def buy_try_def except_return_false_eq env rq
          config_example_def init_bot_def bought_example_def)
qed

lemma cycle_example_with_math:
  "analyze_and_trade env_with_math config_example init_bot = (Inr (), bought_example)"
proof -
  have k: "historical_klines env_with_math = Inr [Fin 104, Fin 103, Fin 102, Fin 101]"
    "symbol_ticker env_with_math = Inr 100"
    by (simp_all add: env_with_math_def env_example_def)
  from analyze_falling[OF k] obtain latest where
    a: "analyze env_with_math config_example = Inr (Some (latest, 100))"
    and l: "latest ''rsi'' = Some (Fin 0)" "latest ''upper_band'' = Some (Fin 104)"
      "latest ''lower_band'' = Some (Fin 100)"
    by blast
  have "trade_signal config_example (position init_bot) (Fin 0) (Fin 104) (Fin 100) 100
        = Buy_signal"
    by (simp add: trade_signal_def config_example_def init_bot_def)
  with l have "trade_logic env_with_math config_example 100 latest init_bot
        = (Inr (), bought_example\<lparr>transactions_json := []\<rparr>)"
    by (simp add: trade_logic_def execute_buy_order_example_with_math)
  with a show ?thesis
    by (simp add: analyze_and_trade_def save_transactions_def bought_example_def
          env_with_math_def env_example_def)
qed

theorem position_matches_ledger_witness:
  "reachable config_example bought_example
   \<and> in_position (position bought_example)
   \<and> ledger_invariant bought_example"
proof -
  have r: "reachable config_example bought_example"
    using reachable_init cycle_example_with_math by (rule reachable_cycle)
  have "in_position (position bought_example)" by (simp add: bought_example_def)
  with r position_matches_ledger[OF r] show ?thesis by (intro conjI)
qed

subsection \<open>Entering with an open position\<close>

lemma save_transactions_orders [simp]: "orders (save_transactions e s) = orders s"
  by (simp add: save_transactions_def)








end
